theory Spec2Isabelle
  imports Complex_Main "HOL-Library.Sublist" "HOL-Library.AList"
begin

section \<open>The CRM client of the middleware (api/lib/ghl-api.js)\<close>

text \<open>
  The client is a set of asynchronous JavaScript functions that talk to the CRM through
  \<^verbatim>\<open>fetch\<close>. Every function is embedded as a function from the state of the
  network to a result and the next state. A thrown exception is the left summand of the
  result. Writes to the console are not modelled. A log line that converts a value to
  text throws when the value does not convert; searchContactByEmail,
  updateContactCustomFields and addTagsToContact carry these conversions, and the other
  functions are modelled for values that convert.
\<close>

subsection \<open>JavaScript values\<close>

text \<open>
  Numbers are IEEE doubles in the source; the client reads nothing of a number but its
  truthiness, so a finite number is carried as a rational (both zeros are \<open>Finite 0\<close>).
\<close>

datatype jsnum = Finite rat | PosInf | NegInf | NaN

text \<open>The objects of the engine that a lookup through the prototype of a plain object
  can yield: \<^verbatim>\<open>Object.prototype\<close> itself and the built-in functions, by name.\<close>

datatype native = ObjectPrototype | BuiltinFunction string

text \<open>
  An object of data is the list of its own properties in insertion order; a lookup takes
  the first binding of a key. Values carry no reference identity: every occurrence of an
  array or object stands for an object of its own.
\<close>

datatype jsval =
    Undefined
  | Null
  | Bool bool
  | Num jsnum
  | Str string
  | Arr "jsval list"
  | Obj "(string \<times> jsval) list"
  | Native native

fun truthy :: "jsval \<Rightarrow> bool" where
  "truthy Undefined = False"
| "truthy Null = False"
| "truthy (Bool b) = b"
| "truthy (Num n) = (n \<noteq> Finite 0 \<and> n \<noteq> NaN)"
| "truthy (Str s) = (s \<noteq> [])"
| "truthy (Arr xs) = True"
| "truthy (Obj kvs) = True"
| "truthy (Native n) = True"

text \<open>An exception object: \<^verbatim>\<open>new Error(message)\<close> with the optional \<^verbatim>\<open>code\<close> and
  \<^verbatim>\<open>status\<close> properties the client attaches.\<close>

record error =
  ename :: string
  message :: string
  code :: "string option"
  status :: "nat option"

definition Error :: "string \<Rightarrow> error" where
  "Error msg = \<lparr>ename = ''Error'', message = msg, code = None, status = None\<rparr>"

text \<open>The faults the engine itself raises as a \<^verbatim>\<open>TypeError\<close>; the wording of their
  messages belongs to the engine.\<close>

datatype fault =
    ReadOfNullish jsval string
  | NotAFunction jsval string
  | NotIterable jsval
  | NoObjectCoercion jsval
  | NoPrimitive jsval

subsection \<open>Requests, responses and the host\<close>

record options =
  "method" :: "string option"
  headers :: "(string \<times> string) list"
  body :: "string option"

record request = options +
  url :: string

text \<open>What the client reads of a \<^verbatim>\<open>Response\<close>: \<^verbatim>\<open>status\<close>, \<^verbatim>\<open>statusText\<close>,
  \<^verbatim>\<open>headers.get('content-type')\<close> and \<^verbatim>\<open>text()\<close>. Reading the body of a response
  that has arrived is taken to succeed.\<close>

record response =
  r_status :: nat
  r_statusText :: string
  r_contentType :: "string option"
  r_text :: string

text \<open>
  The host: the built-ins whose behaviour is not part of the repository, and \<^verbatim>\<open>fetch\<close>,
  which answers a request from the state \<open>'w\<close> of the outside world and moves that state.
  A rejected \<^verbatim>\<open>fetch\<close> promise is the left summand. The theorems hold for every
  host, so for whatever the engine's \<^verbatim>\<open>JSON.parse\<close>, \<^verbatim>\<open>toLowerCase\<close> or
  \<^verbatim>\<open>trim\<close> do on Unicode text. The last two fields give the members that
  \<^verbatim>\<open>Object.prototype\<close> and \<^verbatim>\<open>Array.prototype\<close> hold under a name, apart from the
  accessor \<^verbatim>\<open>__proto__\<close>. Text is a list of 8-bit characters, which holds no lone
  surrogate, so \<^verbatim>\<open>encodeURIComponent\<close> does not throw on it.
\<close>

record 'w runtime =
  fetch :: "request \<Rightarrow> 'w \<Rightarrow> (error + response) \<times> 'w"
  JSON_parse :: "string \<Rightarrow> error + jsval"
  JSON_stringify :: "jsval \<Rightarrow> string"
  encodeURIComponent :: "string \<Rightarrow> string"
  toLowerCase :: "string \<Rightarrow> string"
  trim :: "string \<Rightarrow> string"
  numberToString :: "jsnum \<Rightarrow> string"
  typeError :: "fault \<Rightarrow> error"
  objectPrototypeMember :: "string \<Rightarrow> jsval option"
  arrayPrototypeMember :: "string \<Rightarrow> jsval option"

text \<open>The state threaded through the client: the requests handed to \<^verbatim>\<open>fetch\<close> so far,
  oldest first, and the world.\<close>

record 'w net =
  trace :: "request list"
  world :: 'w

definition doFetch :: "'w runtime \<Rightarrow> request \<Rightarrow> 'w net \<Rightarrow> (error + response) \<times> 'w net" where
  "doFetch rt req s =
     (case fetch rt req (world s) of
        (r, w') \<Rightarrow> (r, \<lparr>trace = trace s @ [req], world = w'\<rparr>))"

text \<open>\<^verbatim>\<open>process.env\<close>: a variable is a string or undefined.\<close>

record config =
  GHL_API_KEY :: "string option"
  GHL_LOCATION_ID :: "string option"

definition GHL_API_BASE :: string where
  "GHL_API_BASE = ''https://rest.gohighlevel.com/v1''"

definition GHL_SERVICES_BASE :: string where
  "GHL_SERVICES_BASE = ''https://services.leadconnectorhq.com''"

text \<open>Truthiness of an environment variable: undefined and the empty string are falsy.\<close>

fun envSet :: "string option \<Rightarrow> bool" where
  "envSet None = False"
| "envSet (Some v) = (v \<noteq> [])"

text \<open>An environment variable inside a template literal.\<close>

fun envText :: "string option \<Rightarrow> string" where
  "envText None = ''undefined''"
| "envText (Some v) = v"

subsection \<open>Language primitives\<close>

definition ownProp :: "(string \<times> jsval) list \<Rightarrow> string \<Rightarrow> jsval" where
  "ownProp kvs k = (case map_of kvs k of Some v \<Rightarrow> v | None \<Rightarrow> Undefined)"

text \<open>\<^verbatim>\<open>v.k\<close> for the keys the client writes out (contacts, contact, email, id, name,
  tags, msg, message, customFields, fieldKey, firstName, lastName, phone): reading a
  property of \<^verbatim>\<open>undefined\<close> or \<^verbatim>\<open>null\<close> throws; none of these keys is a member of a
  built-in prototype, so on an object the own properties decide, and any other value has
  none of them. The one lookup under a key from outside is lookupField below.\<close>

fun getProp :: "'w runtime \<Rightarrow> jsval \<Rightarrow> string \<Rightarrow> error + jsval" where
  "getProp rt Undefined k = Inl (typeError rt (ReadOfNullish Undefined k))"
| "getProp rt Null k = Inl (typeError rt (ReadOfNullish Null k))"
| "getProp rt (Obj kvs) k = Inr (ownProp kvs k)"
| "getProp rt v k = Inr Undefined"

fun isArray :: "jsval \<Rightarrow> bool" where
  "isArray (Arr xs) = True"
| "isArray v = False"

fun digit :: "nat \<Rightarrow> char" where
  "digit n = char_of (48 + n)"

fun decimal :: "nat \<Rightarrow> string" where
  "decimal n = (if n < 10 then [digit n] else decimal (n div 10) @ [digit (n mod 10)])"

fun joinWith :: "string \<Rightarrow> string list \<Rightarrow> string" where
  "joinWith sep [] = []"
| "joinWith sep [x] = x"
| "joinWith sep (x # y # ys) = x @ sep @ joinWith sep (y # ys)"

text \<open>\<^verbatim>\<open>String(v)\<close>, also the conversion of a template literal.\<close>

fun ToString :: "'w runtime \<Rightarrow> jsval \<Rightarrow> string" where
  "ToString rt Undefined = ''undefined''"
| "ToString rt Null = ''null''"
| "ToString rt (Bool b) = (if b then ''true'' else ''false'')"
| "ToString rt (Num n) = numberToString rt n"
| "ToString rt (Str s) = s"
| "ToString rt (Arr xs) =
     joinWith '','' (map (\<lambda>x. if x = Undefined \<or> x = Null then [] else ToString rt x) xs)"
| "ToString rt (Obj kvs) = ''[object Object]''"
| "ToString rt (Native ObjectPrototype) = ''[object Object]''"
| "ToString rt (Native (BuiltinFunction f)) = ''function '' @ f @ ''() { [native code] }''"

text \<open>
  The conversion to text can throw: an object of data with an own property
  \<^verbatim>\<open>toString\<close> has lost the inherited function, its own one is data and cannot be called,
  and \<^verbatim>\<open>valueOf\<close> gives no primitive either. An array converts its elements, null and
  undefined apart. \<open>ToString\<close> is the text of a value that converts; \<open>stringOf\<close> is the
  conversion with its failure.
\<close>

fun convertible :: "jsval \<Rightarrow> bool" where
  "convertible (Obj kvs) = (map_of kvs ''toString'' = None)"
| "convertible (Arr xs) = list_all (\<lambda>x. convertible x) xs"
| "convertible v = True"

definition stringOf :: "'w runtime \<Rightarrow> jsval \<Rightarrow> error + string" where
  "stringOf rt v = (if convertible v then Inr (ToString rt v) else Inl (typeError rt (NoPrimitive v)))"

definition bindE :: "error + 'a \<Rightarrow> ('a \<Rightarrow> error + 'b) \<Rightarrow> error + 'b" where
  "bindE r f = (case r of Inl e \<Rightarrow> Inl e | Inr v \<Rightarrow> f v)"

text \<open>\<^verbatim>\<open>s.includes(sub)\<close> and \<^verbatim>\<open>s.startsWith(p)\<close>.\<close>

fun str_includes :: "string \<Rightarrow> string \<Rightarrow> bool" where
  "str_includes [] sub = (sub = [])"
| "str_includes (c # cs) sub = (prefix sub (c # cs) \<or> str_includes cs sub)"

definition startsWith :: "string \<Rightarrow> string \<Rightarrow> bool" where
  "startsWith s p = prefix p s"

subsection \<open>The request executor for the REST base: ghlRequest\<close>

text \<open>The message of line 11; its arrow sign is written in ASCII here.\<close>

definition missingKeyMessage :: string where
  "missingKeyMessage = ''GHL_API_KEY environment variable is not set. Please configure it in Vercel project settings -> Environment Variables.''"

definition defaultHeaders :: "config \<Rightarrow> (string \<times> string) list" where
  "defaultHeaders cfg =
     [(''Authorization'', ''Bearer '' @ envText (GHL_API_KEY cfg)),
      (''Content-Type'', ''application/json''),
      (''Version'', ''2021-07-28'')]"

text \<open>\<^verbatim>\<open>{...a, ...b}\<close> on headers: a later binding replaces the value in place, a new key
  goes to the end.\<close>

definition spreadInto :: "('k \<times> 'v) list \<Rightarrow> ('k \<times> 'v) list \<Rightarrow> ('k \<times> 'v) list" where
  "spreadInto base extra = fold (\<lambda>(k, v) acc. AList.update k v acc) extra base"

definition noOptions :: options where
  "noOptions = \<lparr>method = None, headers = [], body = None\<rparr>"

definition response_ok :: "response \<Rightarrow> bool" where
  "response_ok r = (200 \<le> r_status r \<and> r_status r \<le> 299)"

text \<open>Lines 34-40: the error body, decoded when it is JSON.\<close>

definition errorDataOf :: "'w runtime \<Rightarrow> string \<Rightarrow> jsval" where
  "errorDataOf rt errorText =
     (case JSON_parse rt errorText of
        Inr v \<Rightarrow> v
      | Inl e \<Rightarrow> Obj [(''message'', Str errorText)])"

text \<open>\<^verbatim>\<open>errorData.msg || errorData.message || fallback\<close>, converted to text.\<close>

definition msgOrMessage :: "'w runtime \<Rightarrow> jsval \<Rightarrow> string \<Rightarrow> error + string" where
  "msgOrMessage rt errorData fallback =
     (case getProp rt errorData ''msg'' of
        Inl e \<Rightarrow> Inl e
      | Inr m \<Rightarrow>
          if truthy m then Inr (ToString rt m)
          else (case getProp rt errorData ''message'' of
                  Inl e \<Rightarrow> Inl e
                | Inr m' \<Rightarrow> Inr (if truthy m' then ToString rt m' else fallback)))"

definition authError :: "string \<Rightarrow> error" where
  "authError msg = \<lparr>ename = ''Error'', message = msg, code = Some ''AUTH_ERROR'', status = Some 401\<rparr>"

text \<open>Lines 33-53: what a response that is not ok throws.\<close>

definition ghlRequest_failure :: "'w runtime \<Rightarrow> response \<Rightarrow> error" where
  "ghlRequest_failure rt response =
     (let errorData = errorDataOf rt (r_text response) in
      if r_status response = 401 then
        (case msgOrMessage rt errorData ''Invalid API key'' of
           Inl e \<Rightarrow> e
         | Inr m \<Rightarrow> authError (''GHL API Authentication Failed (401): '' @ m
                      @ ''. Please verify your GHL_API_KEY in Vercel environment variables.''))
      else
        (case msgOrMessage rt errorData (r_statusText response) of
           Inl e \<Rightarrow> e
         | Inr m \<Rightarrow> Error (''GHL API Error: '' @ decimal (r_status response) @ '' - '' @ m)))"

definition successOnly :: jsval where
  "successOnly = Obj [(''success'', Bool True)]"

text \<open>Lines 55-81: the value of an ok response.\<close>

definition ghlRequest_success :: "'w runtime \<Rightarrow> response \<Rightarrow> error + jsval" where
  "ghlRequest_success rt response =
     (let contentType = (case r_contentType response of Some c \<Rightarrow> c | None \<Rightarrow> []);
          responseText = r_text response in
      if responseText = [] \<or> trim rt responseText = [] then Inr successOnly
      else if str_includes contentType ''application/json'' then
        (case JSON_parse rt responseText of
           Inr v \<Rightarrow> Inr v
         | Inl parseError \<Rightarrow> Inl (Error (''Invalid JSON response: '' @ take 100 responseText)))
      else Inr (Obj [(''success'', Bool True), (''message'', Str responseText),
                     (''raw'', Str responseText)]))"

text \<open>Lines 16-31: the request handed to \<^verbatim>\<open>fetch\<close>, \<^verbatim>\<open>{...options, headers}\<close>.\<close>

definition restRequest :: "config \<Rightarrow> string \<Rightarrow> options \<Rightarrow> request" where
  "restRequest cfg endpoint opts =
     \<lparr>method = method opts,
      headers = spreadInto (defaultHeaders cfg) (headers opts),
      body = body opts,
      url = GHL_API_BASE @ endpoint\<rparr>"

definition ghlRequest ::
  "'w runtime \<Rightarrow> config \<Rightarrow> string \<Rightarrow> options \<Rightarrow> 'w net \<Rightarrow> (error + jsval) \<times> 'w net" where
  "ghlRequest rt cfg endpoint opts s =
     (if \<not> envSet (GHL_API_KEY cfg) then
        (Inl \<lparr>ename = ''Error'', message = missingKeyMessage,
              code = Some ''MISSING_API_KEY'', status = None\<rparr>, s)
      else
        (case doFetch rt (restRequest cfg endpoint opts) s of
           (Inl e, s') \<Rightarrow> (Inl e, s')
         | (Inr response, s') \<Rightarrow>
             if \<not> response_ok response then (Inl (ghlRequest_failure rt response), s')
             else (ghlRequest_success rt response, s')))"

subsection \<open>Searching a contact by email: searchContactByEmail\<close>

text \<open>Lines 95-103: the list of contacts in a response.\<close>

definition contactsOf :: "'w runtime \<Rightarrow> jsval \<Rightarrow> error + jsval list" where
  "contactsOf rt data =
     (case getProp rt data ''contacts'' of
        Inl e \<Rightarrow> Inl e
      | Inr cs \<Rightarrow>
          (case cs of
             Arr xs \<Rightarrow> Inr xs
           | _ \<Rightarrow>
               (case getProp rt data ''contact'' of
                  Inl e \<Rightarrow> Inl e
                | Inr c \<Rightarrow>
                    if truthy c then Inr [c]
                    else (case data of Arr xs \<Rightarrow> Inr xs | _ \<Rightarrow> Inr []))))"

text \<open>Lines 106-108, the callback of the filter:
  \<^verbatim>\<open>contact.email && contact.email.toLowerCase() === email.toLowerCase()\<close>.\<close>

definition emailMatches :: "'w runtime \<Rightarrow> string \<Rightarrow> jsval \<Rightarrow> error + bool" where
  "emailMatches rt email contact =
     (case getProp rt contact ''email'' of
        Inl e \<Rightarrow> Inl e
      | Inr em \<Rightarrow>
          if \<not> truthy em then Inr False
          else (case em of
                  Str a \<Rightarrow> Inr (toLowerCase rt a = toLowerCase rt email)
                | _ \<Rightarrow> Inl (typeError rt (NotAFunction em ''toLowerCase''))))"

text \<open>\<^verbatim>\<open>Array.prototype.filter\<close> with a callback that may throw: the elements are visited
  in order and the first exception ends the loop.\<close>

fun filterE :: "('a \<Rightarrow> error + bool) \<Rightarrow> 'a list \<Rightarrow> error + 'a list" where
  "filterE p [] = Inr []"
| "filterE p (x # xs) =
     (case p x of
        Inl e \<Rightarrow> Inl e
      | Inr b \<Rightarrow>
          (case filterE p xs of
             Inl e \<Rightarrow> Inl e
           | Inr ys \<Rightarrow> Inr (if b then x # ys else ys)))"

text \<open>Line 113, the text logged for a contact that was found:
  \<^verbatim>\<open>${result.id} (${result.name || result.email})\<close>. The id and the name come from
  upstream, and their conversion can throw.\<close>

definition foundLine :: "'w runtime \<Rightarrow> jsval \<Rightarrow> error + string" where
  "foundLine rt result =
     bindE (getProp rt result ''id'') (\<lambda>i.
     bindE (stringOf rt i) (\<lambda>idText.
     bindE (getProp rt result ''name'') (\<lambda>nm.
     bindE (if truthy nm then Inr nm else getProp rt result ''email'') (\<lambda>shown.
     bindE (stringOf rt shown) (\<lambda>shownText.
     Inr (''[GHL] Found contact: '' @ idText @ '' ('' @ shownText @ '')''))))))"

definition searchContactByEmail ::
  "'w runtime \<Rightarrow> config \<Rightarrow> string \<Rightarrow> 'w net \<Rightarrow> (error + jsval) \<times> 'w net" where
  "searchContactByEmail rt cfg email s =
     (case ghlRequest rt cfg (''/contacts/?query='' @ encodeURIComponent rt email) noOptions s of
        (Inl e, s') \<Rightarrow> (Inl e, s')
      | (Inr data, s') \<Rightarrow>
          (case contactsOf rt data of
             Inl e \<Rightarrow> (Inl e, s')
           | Inr contacts \<Rightarrow>
               (case filterE (emailMatches rt email) contacts of
                  Inl e \<Rightarrow> (Inl e, s')
                | Inr exactMatches \<Rightarrow>
                    (let result = (case exactMatches of [] \<Rightarrow> Null | c # rest \<Rightarrow> c) in
                     if truthy result then
                       (case foundLine rt result of
                          Inl e \<Rightarrow> (Inl e, s')
                        | Inr line \<Rightarrow> (Inr result, s'))
                     else (Inr result, s')))))"

subsection \<open>Custom field definitions: getCustomFieldDefinitions\<close>

text \<open>The own enumerable properties of a value, as \<^verbatim>\<open>Object.entries\<close> and an object
  spread list them. The engine's reordering of integer-like keys is not modelled.\<close>

fun ownEntries :: "jsval \<Rightarrow> (string \<times> jsval) list" where
  "ownEntries (Obj kvs) = kvs"
| "ownEntries (Arr xs) = zip (map decimal [0..<length xs]) xs"
| "ownEntries (Str t) = zip (map decimal [0..<length t]) (map (\<lambda>c. Str [c]) t)"
| "ownEntries v = []"

text \<open>
  Line 132: \<^verbatim>\<open>fieldMap\<close> starts as the plain object \<^verbatim>\<open>{}\<close>, with no own property and
  \<^verbatim>\<open>Object.prototype\<close> as its prototype. The map is read and written under keys that
  come from upstream and from the caller, so it is kept with its prototype.
\<close>

record fieldMap =
  fm_own :: "(string \<times> jsval) list"
  fm_proto :: jsval

definition emptyFieldMap :: fieldMap where
  "emptyFieldMap = \<lparr>fm_own = [], fm_proto = Native ObjectPrototype\<rparr>"

text \<open>What \<^verbatim>\<open>Object.prototype\<close> gives under a key, to an object whose prototype is
  \<open>receiverProto\<close>: the accessor \<^verbatim>\<open>__proto__\<close> returns that prototype.\<close>

definition fromObjectPrototype :: "'w runtime \<Rightarrow> jsval \<Rightarrow> string \<Rightarrow> jsval" where
  "fromObjectPrototype rt receiverProto k =
     (if k = ''__proto__'' then receiverProto
      else (case objectPrototypeMember rt k of Some v \<Rightarrow> v | None \<Rightarrow> Undefined))"

text \<open>A read that finds no own property walks the prototype chain: the own properties of
  the prototype (an object or array of data, once \<^verbatim>\<open>__proto__\<close> has been assigned one),
  then the built-in prototypes.\<close>

definition inheritedProp :: "'w runtime \<Rightarrow> jsval \<Rightarrow> string \<Rightarrow> jsval" where
  "inheritedProp rt proto k =
     (case proto of
        Obj kvs \<Rightarrow>
          (case map_of kvs k of Some v \<Rightarrow> v | None \<Rightarrow> fromObjectPrototype rt proto k)
      | Arr xs \<Rightarrow>
          (case map_of (ownEntries (Arr xs)) k of
             Some v \<Rightarrow> v
           | None \<Rightarrow>
               if k = ''length'' then Num (Finite (of_nat (length xs)))
               else (case arrayPrototypeMember rt k of
                       Some v \<Rightarrow> v
                     | None \<Rightarrow> fromObjectPrototype rt proto k))
      | Native ObjectPrototype \<Rightarrow> fromObjectPrototype rt proto k
      | _ \<Rightarrow> Undefined)"

text \<open>Line 183: \<^verbatim>\<open>fieldDefinitions[fieldKey]\<close>.\<close>

definition lookupField :: "'w runtime \<Rightarrow> fieldMap \<Rightarrow> string \<Rightarrow> jsval" where
  "lookupField rt fm k =
     (case map_of (fm_own fm) k of
        Some v \<Rightarrow> v
      | None \<Rightarrow> inheritedProp rt (fm_proto fm) k)"

fun isObjectValue :: "jsval \<Rightarrow> bool" where
  "isObjectValue (Obj kvs) = True"
| "isObjectValue (Arr xs) = True"
| "isObjectValue (Native n) = True"
| "isObjectValue v = False"

fun hasOwnDataProto :: "jsval \<Rightarrow> bool" where
  "hasOwnDataProto (Obj kvs) = (map_of kvs ''__proto__'' \<noteq> None)"
| "hasOwnDataProto v = False"

text \<open>
  Line 140: \<^verbatim>\<open>fieldMap[normalizedKey] = field.id\<close>. Under any key but \<^verbatim>\<open>__proto__\<close> this
  sets an own property. Under \<^verbatim>\<open>__proto__\<close> the setter of \<^verbatim>\<open>Object.prototype\<close> runs,
  unless an own property or a data property of the prototype has that name: it replaces
  the prototype when the value is an object and does nothing otherwise.
\<close>

definition assignField :: "fieldMap \<Rightarrow> string \<Rightarrow> jsval \<Rightarrow> fieldMap" where
  "assignField fm k v =
     (if k = ''__proto__'' \<and> map_of (fm_own fm) k = None \<and> \<not> hasOwnDataProto (fm_proto fm)
      then (if isObjectValue v then fm\<lparr>fm_proto := v\<rparr> else fm)
      else fm\<lparr>fm_own := AList.update k v (fm_own fm)\<rparr>)"

text \<open>Lines 134-142, the body of the \<^verbatim>\<open>forEach\<close>.\<close>

definition addField :: "'w runtime \<Rightarrow> jsval \<Rightarrow> fieldMap \<Rightarrow> error + fieldMap" where
  "addField rt field fieldMap =
     (case getProp rt field ''id'' of
        Inl e \<Rightarrow> Inl e
      | Inr fid \<Rightarrow>
          if \<not> truthy fid then Inr fieldMap
          else (case getProp rt field ''fieldKey'' of
                  Inl e \<Rightarrow> Inl e
                | Inr fk \<Rightarrow>
                    if \<not> truthy fk then Inr fieldMap
                    else (case fk of
                            Str fieldKey \<Rightarrow>
                              Inr (assignField fieldMap
                                     (if startsWith fieldKey ''contact.'' then drop 8 fieldKey
                                      else fieldKey)
                                     fid)
                          | _ \<Rightarrow> Inl (typeError rt (NotAFunction fk ''startsWith'')))))"

fun forEachE :: "('a \<Rightarrow> 's \<Rightarrow> error + 's) \<Rightarrow> 'a list \<Rightarrow> 's \<Rightarrow> error + 's" where
  "forEachE f [] acc = Inr acc"
| "forEachE f (x # xs) acc =
     (case f x acc of
        Inl e \<Rightarrow> Inl e
      | Inr acc' \<Rightarrow> forEachE f xs acc')"

definition getCustomFieldDefinitions ::
  "'w runtime \<Rightarrow> config \<Rightarrow> 'w net \<Rightarrow> (error + fieldMap) \<times> 'w net" where
  "getCustomFieldDefinitions rt cfg s =
     (let endpoint =
            (if envSet (GHL_LOCATION_ID cfg)
             then ''/custom-fields/?locationId='' @ envText (GHL_LOCATION_ID cfg)
             else ''/custom-fields/'')
      in case ghlRequest rt cfg endpoint noOptions s of
           (Inl e, s') \<Rightarrow> (Inl e, s')
         | (Inr data, s') \<Rightarrow>
             (case getProp rt data ''customFields'' of
                Inl e \<Rightarrow> (Inl e, s')
              | Inr cf \<Rightarrow>
                  (case cf of
                     Arr customFields \<Rightarrow> (forEachE (addField rt) customFields emptyFieldMap, s')
                   | _ \<Rightarrow> (Inr emptyFieldMap, s'))))"

subsection \<open>Creating a contact: createContact\<close>

text \<open>One line of the payload literal, \<^verbatim>\<open>...(contactData.k && { k: contactData.k })\<close>:
  spreading a falsy value adds nothing.\<close>

definition optionalField ::
  "'w runtime \<Rightarrow> jsval \<Rightarrow> string \<Rightarrow> (string \<times> jsval) list \<Rightarrow> error + (string \<times> jsval) list" where
  "optionalField rt contactData k payload =
     (case getProp rt contactData k of
        Inl e \<Rightarrow> Inl e
      | Inr v \<Rightarrow> Inr (if truthy v then AList.update k v payload else payload))"

text \<open>Lines 153-159.\<close>

definition createContact_payload :: "'w runtime \<Rightarrow> jsval \<Rightarrow> error + (string \<times> jsval) list" where
  "createContact_payload rt contactData =
     bindE (getProp rt contactData ''email'') (\<lambda>em.
     bindE (optionalField rt contactData ''firstName'' [(''email'', em)]) (\<lambda>p1.
     bindE (optionalField rt contactData ''lastName'' p1) (\<lambda>p2.
     bindE (optionalField rt contactData ''name'' p2) (\<lambda>p3.
     optionalField rt contactData ''phone'' p3))))"

text \<open>\<^verbatim>\<open>data.contact || data\<close>.\<close>

definition contactOrSelf :: "'w runtime \<Rightarrow> jsval \<Rightarrow> error + jsval" where
  "contactOrSelf rt data =
     (case getProp rt data ''contact'' of
        Inl e \<Rightarrow> Inl e
      | Inr c \<Rightarrow> Inr (if truthy c then c else data))"

definition createContact ::
  "'w runtime \<Rightarrow> config \<Rightarrow> jsval \<Rightarrow> 'w net \<Rightarrow> (error + jsval) \<times> 'w net" where
  "createContact rt cfg contactData s =
     (case createContact_payload rt contactData of
        Inl e \<Rightarrow> (Inl e, s)
      | Inr payload \<Rightarrow>
          (case ghlRequest rt cfg ''/contacts/''
                  \<lparr>method = Some ''POST'', headers = [],
                   body = Some (JSON_stringify rt (Obj payload))\<rparr> s of
             (Inl e, s') \<Rightarrow> (Inl e, s')
           | (Inr data, s') \<Rightarrow> (contactOrSelf rt data, s')))"

subsection \<open>Updating custom fields: updateContactCustomFields\<close>

definition Object_entries :: "'w runtime \<Rightarrow> jsval \<Rightarrow> error + (string \<times> jsval) list" where
  "Object_entries rt v =
     (if v = Undefined \<or> v = Null then Inl (typeError rt (NoObjectCoercion v))
      else Inr (ownEntries v))"

text \<open>
  Lines 182-194, the loop over the entries; \<^verbatim>\<open>push\<close> appends. Line 188 converts the
  value with \<^verbatim>\<open>String\<close>, and line 190 converts the id for the log; both can throw.
\<close>

fun pushResolved ::
  "'w runtime \<Rightarrow> fieldMap \<Rightarrow> (string \<times> jsval) list \<Rightarrow> jsval list \<Rightarrow> error + jsval list" where
  "pushResolved rt fieldDefinitions [] customFields = Inr customFields"
| "pushResolved rt fieldDefinitions ((fieldKey, fieldValue) # rest) customFields =
     (let fieldId = lookupField rt fieldDefinitions fieldKey in
      if truthy fieldId then
        (case stringOf rt fieldValue of
           Inl e \<Rightarrow> Inl e
         | Inr valueText \<Rightarrow>
             (case stringOf rt fieldId of
                Inl e \<Rightarrow> Inl e
              | Inr idText \<Rightarrow>
                  pushResolved rt fieldDefinitions rest
                    (customFields @ [Obj [(''id'', fieldId), (''value'', Str valueText)]])))
      else pushResolved rt fieldDefinitions rest customFields)"

text \<open>Line 174 converts the contact id for the log before anything else.\<close>

definition updateContactCustomFields ::
  "'w runtime \<Rightarrow> config \<Rightarrow> jsval \<Rightarrow> jsval \<Rightarrow> 'w net \<Rightarrow> (error + jsval) \<times> 'w net" where
  "updateContactCustomFields rt cfg contactId fieldUpdates s =
     (case stringOf rt contactId of
        Inl e \<Rightarrow> (Inl e, s)
      | Inr idText \<Rightarrow>
          (case getCustomFieldDefinitions rt cfg s of
             (Inl e, s1) \<Rightarrow> (Inl e, s1)
           | (Inr fieldDefinitions, s1) \<Rightarrow>
               (case Object_entries rt fieldUpdates of
                  Inl e \<Rightarrow> (Inl e, s1)
                | Inr entries \<Rightarrow>
                    (case pushResolved rt fieldDefinitions entries [] of
                       Inl e \<Rightarrow> (Inl e, s1)
                     | Inr customFields \<Rightarrow>
                         if length customFields = 0 then (Inr Null, s1)
                         else
                           (case ghlRequest rt cfg (''/contacts/'' @ idText)
                                   \<lparr>method = Some ''PUT'', headers = [],
                                    body = Some (JSON_stringify rt
                                                   (Obj [(''customField'', Arr customFields)]))\<rparr>
                                   s1 of
                              (Inl e, s2) \<Rightarrow> (Inl e, s2)
                            | (Inr data, s2) \<Rightarrow> (contactOrSelf rt data, s2))))))"

subsection \<open>Find or create: findOrCreateContact\<close>

definition findOrCreateContact ::
  "'w runtime \<Rightarrow> config \<Rightarrow> string \<Rightarrow> jsval \<Rightarrow> 'w net \<Rightarrow> (error + jsval) \<times> 'w net" where
  "findOrCreateContact rt cfg email contactData s =
     (case searchContactByEmail rt cfg email s of
        (Inl e, s') \<Rightarrow> (Inl e, s')
      | (Inr contact, s') \<Rightarrow>
          if \<not> truthy contact then
            createContact rt cfg
              (Obj (spreadInto [(''email'', Str email)] (ownEntries contactData))) s'
          else (Inr contact, s'))"

subsection \<open>Deleting: deleteContact and deleteContactByEmail\<close>

definition deleteContact ::
  "'w runtime \<Rightarrow> config \<Rightarrow> jsval \<Rightarrow> 'w net \<Rightarrow> (error + jsval) \<times> 'w net" where
  "deleteContact rt cfg contactId s =
     (case ghlRequest rt cfg (''/contacts/'' @ ToString rt contactId)
             \<lparr>method = Some ''DELETE'', headers = [], body = None\<rparr> s of
        (Inl e, s') \<Rightarrow> (Inl e, s')
      | (Inr data, s') \<Rightarrow> (Inr (Bool True), s'))"

definition deleteContactByEmail ::
  "'w runtime \<Rightarrow> config \<Rightarrow> string \<Rightarrow> 'w net \<Rightarrow> (error + jsval) \<times> 'w net" where
  "deleteContactByEmail rt cfg email s =
     (case searchContactByEmail rt cfg email s of
        (Inl e, s') \<Rightarrow> (Inl e, s')
      | (Inr contact, s') \<Rightarrow>
          if \<not> truthy contact then (Inr (Bool False), s')
          else
            (case getProp rt contact ''id'' of
               Inl e \<Rightarrow> (Inl e, s')
             | Inr contactId \<Rightarrow>
                 (case deleteContact rt cfg contactId s' of
                    (Inl e, s2) \<Rightarrow> (Inl e, s2)
                  | (Inr done, s2) \<Rightarrow> (Inr (Bool True), s2))))"

subsection \<open>Tagging: addTagsToContact\<close>

text \<open>\<^verbatim>\<open>[...v]\<close>: an array yields its elements, a string its characters, anything else
  that is truthy is not iterable.\<close>

fun spreadIterable :: "'w runtime \<Rightarrow> jsval \<Rightarrow> error + jsval list" where
  "spreadIterable rt (Arr xs) = Inr xs"
| "spreadIterable rt (Str t) = Inr (map (\<lambda>c. Str [c]) t)"
| "spreadIterable rt v = Inl (typeError rt (NotIterable v))"

text \<open>
  \<^verbatim>\<open>[...new Set(xs)]\<close>: a \<^verbatim>\<open>Set\<close> keeps the first occurrence of each value, in
  insertion order. Primitive values are the same when they are equal, and so is a
  built-in object. Arrays and objects of data are compared by reference: the tags parsed
  from a response are objects of their own, and the model takes every array or object in
  the tag argument as an object of its own too, so a caller that passes one object twice
  in a list is outside the model.
\<close>

fun isPrimitive :: "jsval \<Rightarrow> bool" where
  "isPrimitive (Arr xs) = False"
| "isPrimitive (Obj kvs) = False"
| "isPrimitive (Native n) = False"
| "isPrimitive v = True"

fun comparedByValue :: "jsval \<Rightarrow> bool" where
  "comparedByValue (Arr xs) = False"
| "comparedByValue (Obj kvs) = False"
| "comparedByValue v = True"

definition sameValueZero :: "jsval \<Rightarrow> jsval \<Rightarrow> bool" where
  "sameValueZero a b = (comparedByValue a \<and> a = b)"

definition setAdd :: "jsval list \<Rightarrow> jsval \<Rightarrow> jsval list" where
  "setAdd seen v = (if list_ex (\<lambda>u. sameValueZero u v) seen then seen else seen @ [v])"

definition newSet :: "jsval list \<Rightarrow> jsval list" where
  "newSet xs = foldl setAdd [] xs"

text \<open>Line 265: \<^verbatim>\<open>Array.isArray(tags) ? tags : [tags]\<close>.\<close>

definition tagsArrayOf :: "jsval \<Rightarrow> jsval list" where
  "tagsArrayOf tags = (case tags of Arr ts \<Rightarrow> ts | _ \<Rightarrow> [tags])"

text \<open>\<^verbatim>\<open>xs.join(sep)\<close>: null and undefined give the empty text, any other element is
  converted, and the conversion can throw.\<close>

fun textsOf :: "'w runtime \<Rightarrow> jsval list \<Rightarrow> error + string list" where
  "textsOf rt [] = Inr []"
| "textsOf rt (x # xs) =
     (case (if x = Undefined \<or> x = Null then Inr [] else stringOf rt x) of
        Inl e \<Rightarrow> Inl e
      | Inr t \<Rightarrow>
          (case textsOf rt xs of
             Inl e \<Rightarrow> Inl e
           | Inr ts \<Rightarrow> Inr (t # ts)))"

definition joinE :: "'w runtime \<Rightarrow> string \<Rightarrow> jsval list \<Rightarrow> error + string" where
  "joinE rt sep xs = bindE (textsOf rt xs) (\<lambda>ts. Inr (joinWith sep ts))"

text \<open>Line 262 converts the contact id for the log before anything else, and line 283
  joins the written tags for the log after the write.\<close>

definition addTagsToContact ::
  "'w runtime \<Rightarrow> config \<Rightarrow> jsval \<Rightarrow> jsval \<Rightarrow> 'w net \<Rightarrow> (error + jsval) \<times> 'w net" where
  "addTagsToContact rt cfg contactId tags s =
     (case stringOf rt contactId of
        Inl e \<Rightarrow> (Inl e, s)
      | Inr idText \<Rightarrow>
     (let tagsArray = tagsArrayOf tags in
      case ghlRequest rt cfg (''/contacts/'' @ idText) noOptions s of
        (Inl e, s1) \<Rightarrow> (Inl e, s1)
      | (Inr currentContact, s1) \<Rightarrow>
          (case contactOrSelf rt currentContact of
             Inl e \<Rightarrow> (Inl e, s1)
           | Inr contact \<Rightarrow>
               (case getProp rt contact ''tags'' of
                  Inl e \<Rightarrow> (Inl e, s1)
                | Inr t \<Rightarrow>
                    (case spreadIterable rt (if truthy t then t else Arr []) of
                       Inl e \<Rightarrow> (Inl e, s1)
                     | Inr existingTags \<Rightarrow>
                         (let newTags = newSet (existingTags @ tagsArray) in
                          case ghlRequest rt cfg (''/contacts/'' @ idText)
                                 \<lparr>method = Some ''PUT'', headers = [],
                                  body = Some (JSON_stringify rt
                                                 (Obj [(''tags'', Arr newTags)]))\<rparr> s1 of
                            (Inl e, s2) \<Rightarrow> (Inl e, s2)
                          | (Inr data, s2) \<Rightarrow>
                              (case contactOrSelf rt data of
                                 Inl e \<Rightarrow> (Inl e, s2)
                               | Inr updatedContact \<Rightarrow>
                                   (case joinE rt '', '' newTags of
                                      Inl e \<Rightarrow> (Inl e, s2)
                                    | Inr line \<Rightarrow> (Inr updatedContact, s2)))))))))"

subsection \<open>The request executor for the services base: ghlServicesRequest\<close>

text \<open>Lines 311-331.\<close>

definition ghlServicesRequest_failure :: "'w runtime \<Rightarrow> response \<Rightarrow> error" where
  "ghlServicesRequest_failure rt response =
     (let errorData = errorDataOf rt (r_text response) in
      if r_status response = 401 then
        (case msgOrMessage rt errorData ''Invalid API key'' of
           Inl e \<Rightarrow> e
         | Inr m \<Rightarrow> authError (''GHL API Authentication Failed (401): '' @ m
                      @ ''. Please verify your GHL_API_KEY in Vercel environment variables.''))
      else
        (case msgOrMessage rt errorData (r_statusText response) of
           Inl e \<Rightarrow> e
         | Inr m \<Rightarrow>
             Error (''GHL Services API Error: '' @ decimal (r_status response) @ '' - '' @ m)))"

text \<open>Lines 333-356 repeat lines 55-81 of ghlRequest.\<close>

definition servicesRequest :: "config \<Rightarrow> string \<Rightarrow> options \<Rightarrow> request" where
  "servicesRequest cfg endpoint opts =
     \<lparr>method = method opts,
      headers = spreadInto (defaultHeaders cfg) (headers opts),
      body = body opts,
      url = GHL_SERVICES_BASE @ endpoint\<rparr>"

definition ghlServicesRequest ::
  "'w runtime \<Rightarrow> config \<Rightarrow> string \<Rightarrow> options \<Rightarrow> 'w net \<Rightarrow> (error + jsval) \<times> 'w net" where
  "ghlServicesRequest rt cfg endpoint opts s =
     (if \<not> envSet (GHL_API_KEY cfg) then (Inl (Error missingKeyMessage), s)
      else
        (case doFetch rt (servicesRequest cfg endpoint opts) s of
           (Inl e, s') \<Rightarrow> (Inl e, s')
         | (Inr response, s') \<Rightarrow>
             if \<not> response_ok response then (Inl (ghlServicesRequest_failure rt response), s')
             else (ghlRequest_success rt response, s')))"

subsection \<open>Sending a templated email: sendEmailTemplate\<close>

definition emailPayload :: "jsval \<Rightarrow> jsval \<Rightarrow> jsval" where
  "emailPayload contactId templateId =
     Obj [(''type'', Str ''Email''),
          (''contactId'', contactId),
          (''templateId'', templateId),
          (''subject'', Str ''Someone shared encouragement with you'')]"

record 'w endpoint =
  ep_name :: string
  ep_request :: "'w net \<Rightarrow> (error + jsval) \<times> 'w net"

text \<open>\<^verbatim>\<open>errorData.message || fallback\<close>, converted to text (lines 410 and 416).\<close>

definition messageOr :: "'w runtime \<Rightarrow> jsval \<Rightarrow> string \<Rightarrow> error + string" where
  "messageOr rt errorData fallback =
     (case getProp rt errorData ''message'' of
        Inl e \<Rightarrow> Inl e
      | Inr m \<Rightarrow> Inr (if truthy m then ToString rt m else fallback))"

text \<open>Lines 383-431: the first candidate calls \<^verbatim>\<open>fetch\<close> itself, with the location id
  as a header.\<close>

definition locationHeaderRequest :: "config \<Rightarrow> string \<Rightarrow> request" where
  "locationHeaderRequest cfg payloadText =
     \<lparr>method = Some ''POST'',
      headers = [(''Authorization'', ''Bearer '' @ envText (GHL_API_KEY cfg)),
                 (''Content-Type'', ''application/json''),
                 (''Version'', ''2021-07-28''),
                 (''locationId'', envText (GHL_LOCATION_ID cfg))],
      body = Some payloadText,
      url = GHL_SERVICES_BASE @ ''/conversations/messages''\<rparr>"

definition locationHeaderCandidate ::
  "'w runtime \<Rightarrow> config \<Rightarrow> jsval \<Rightarrow> 'w net \<Rightarrow> (error + jsval) \<times> 'w net" where
  "locationHeaderCandidate rt cfg payload s =
     (case doFetch rt (locationHeaderRequest cfg (JSON_stringify rt payload)) s of
        (Inl e, s') \<Rightarrow> (Inl e, s')
      | (Inr response, s') \<Rightarrow>
          if \<not> response_ok response then
            (let errorData = errorDataOf rt (r_text response) in
             if r_status response = 401 then
               (case messageOr rt errorData ''Invalid API key'' of
                  Inl e \<Rightarrow> (Inl e, s')
                | Inr m \<Rightarrow> (Inl (authError (''GHL API Authentication Failed (401): '' @ m)), s'))
             else
               (case messageOr rt errorData (r_statusText response) of
                  Inl e \<Rightarrow> (Inl e, s')
                | Inr m \<Rightarrow>
                    (Inl (Error (''GHL Services API Error: '' @ decimal (r_status response)
                                 @ '' - '' @ m)), s')))
          else
            (let contentType = (case r_contentType response of Some c \<Rightarrow> c | None \<Rightarrow> []);
                 responseText = r_text response in
             if responseText = [] \<or> trim rt responseText = [] then (Inr successOnly, s')
             else if str_includes contentType ''application/json''
               then (JSON_parse rt responseText, s')
             else (Inr (Obj [(''success'', Bool True), (''message'', Str responseText)]), s')))"

text \<open>Lines 438-441 and 448-451: the second and the third candidate go through the two
  executors.\<close>

definition servicesCandidate ::
  "'w runtime \<Rightarrow> config \<Rightarrow> jsval \<Rightarrow> 'w net \<Rightarrow> (error + jsval) \<times> 'w net" where
  "servicesCandidate rt cfg payload =
     ghlServicesRequest rt cfg ''/conversations/messages''
       \<lparr>method = Some ''POST'', headers = [], body = Some (JSON_stringify rt payload)\<rparr>"

definition restCandidate ::
  "'w runtime \<Rightarrow> config \<Rightarrow> jsval \<Rightarrow> 'w net \<Rightarrow> (error + jsval) \<times> 'w net" where
  "restCandidate rt cfg payload =
     ghlRequest rt cfg
       (''/locations/'' @ envText (GHL_LOCATION_ID cfg) @ ''/conversations/messages'')
       \<lparr>method = Some ''POST'', headers = [], body = Some (JSON_stringify rt payload)\<rparr>"

text \<open>Lines 377-453: the candidates, in the order they are pushed.\<close>

definition endpoints :: "'w runtime \<Rightarrow> config \<Rightarrow> jsval \<Rightarrow> 'w endpoint list" where
  "endpoints rt cfg payload =
     (if envSet (GHL_LOCATION_ID cfg)
      then [\<lparr>ep_name = ''services.leadconnectorhq.com with locationId header'',
             ep_request = locationHeaderCandidate rt cfg payload\<rparr>]
      else [])
     @ [\<lparr>ep_name = ''services.leadconnectorhq.com'',
         ep_request = servicesCandidate rt cfg payload\<rparr>]
     @ (if envSet (GHL_LOCATION_ID cfg)
        then [\<lparr>ep_name = ''rest.gohighlevel.com with locationId in path'',
               ep_request = restCandidate rt cfg payload\<rparr>]
        else [])"

text \<open>Line 467: the test that sends the loop on to the next candidate.\<close>

definition continueShaped :: "error \<Rightarrow> bool" where
  "continueShaped error =
     (message error \<noteq> [] \<and>
      (str_includes (message error) ''404'' \<or> str_includes (message error) ''Not found'' \<or>
       str_includes (message error) ''401'' \<or> str_includes (message error) ''Invalid JWT''))"

text \<open>Line 477: the error thrown after the loop.\<close>

definition allFailed :: "'w runtime \<Rightarrow> jsval \<Rightarrow> error option \<Rightarrow> error" where
  "allFailed rt templateId lastError =
     Error (''All email endpoints failed. Last error: ''
            @ (case lastError of
                 None \<Rightarrow> ''Unknown error''
               | Some e \<Rightarrow> if message e \<noteq> [] then message e else ''Unknown error'')
            @ ''. Please verify the template ID ('' @ ToString rt templateId
            @ '') and API configuration. If you'' @ [CHR 0x27] @ ''re getting 401 errors, you may need to use an OAuth token instead of an API key for the services endpoint.'')"

text \<open>Lines 455-477: the loop over the candidates, with \<^verbatim>\<open>lastError\<close>.\<close>

fun tryEndpoints ::
  "'w runtime \<Rightarrow> jsval \<Rightarrow> 'w endpoint list \<Rightarrow> error option \<Rightarrow> 'w net \<Rightarrow> (error + jsval) \<times> 'w net" where
  "tryEndpoints rt templateId [] lastError s = (Inl (allFailed rt templateId lastError), s)"
| "tryEndpoints rt templateId (endpoint # rest) lastError s =
     (case ep_request endpoint s of
        (Inr data, s') \<Rightarrow> (Inr data, s')
      | (Inl error, s') \<Rightarrow>
          if continueShaped error then tryEndpoints rt templateId rest (Some error) s'
          else (Inl error, s'))"

definition sendEmailTemplate ::
  "'w runtime \<Rightarrow> config \<Rightarrow> jsval \<Rightarrow> jsval \<Rightarrow> 'w net \<Rightarrow> (error + jsval) \<times> 'w net" where
  "sendEmailTemplate rt cfg contactId templateId s =
     tryEndpoints rt templateId (endpoints rt cfg (emailPayload contactId templateId)) None s"

definition sendEmailTemplateByEmail ::
  "'w runtime \<Rightarrow> config \<Rightarrow> string \<Rightarrow> jsval \<Rightarrow> 'w net \<Rightarrow> (error + jsval) \<times> 'w net" where
  "sendEmailTemplateByEmail rt cfg email templateId s =
     (case searchContactByEmail rt cfg email s of
        (Inl e, s') \<Rightarrow> (Inl e, s')
      | (Inr contact, s') \<Rightarrow>
          if \<not> truthy contact
          then (Inl (Error (''Contact not found with email: '' @ email)), s')
          else
            (case getProp rt contact ''id'' of
               Inl e \<Rightarrow> (Inl e, s')
             | Inr contactId \<Rightarrow> sendEmailTemplate rt cfg contactId templateId s'))"

section \<open>Notions of the specification\<close>

text \<open>The requests handed to \<^verbatim>\<open>fetch\<close> between two states of the network.\<close>

definition issued :: "'w net \<Rightarrow> 'w net \<Rightarrow> request list" where
  "issued s s' = drop (length (trace s)) (trace s')"





text \<open>The write of addTagsToContact: a PUT of the whole tag list to the contact.\<close>

definition tagsPut :: "'w runtime \<Rightarrow> config \<Rightarrow> jsval \<Rightarrow> jsval list \<Rightarrow> request" where
  "tagsPut rt cfg contactId newTags =
     restRequest cfg (''/contacts/'' @ ToString rt contactId)
       \<lparr>method = Some ''PUT'', headers = [],
        body = Some (JSON_stringify rt (Obj [(''tags'', Arr newTags)]))\<rparr>"




section \<open>A host for the examples\<close>

text \<open>
  The theorems below hold for every host. The examples run on this one: the world is a
  script, the answers of the CRM in the order of the requests, and the built-ins are
  given on ASCII text. No example holds a number, so the host prints every number alike.
\<close>

definition scripted ::
  "request \<Rightarrow> (error + response) list \<Rightarrow> (error + response) \<times> (error + response) list" where
  "scripted req w =
     (case w of
        [] \<Rightarrow> (Inl \<lparr>ename = ''TypeError'', message = ''fetch failed'',
                     code = None, status = None\<rparr>, [])
      | r # rest \<Rightarrow> (r, rest))"

definition asciiLower :: "string \<Rightarrow> string" where
  "asciiLower t =
     map (\<lambda>c. let n = (of_char c :: nat) in
               if 65 \<le> n \<and> n \<le> 90 then char_of (n + 32) else c) t"

definition isSpace :: "char \<Rightarrow> bool" where
  "isSpace c = (c \<in> set [CHR '' '', CHR 0x09, CHR 0x0A, CHR 0x0B, CHR 0x0C, CHR 0x0D])"

definition asciiTrim :: "string \<Rightarrow> string" where
  "asciiTrim t = rev (dropWhile isSpace (rev (dropWhile isSpace t)))"

definition hexDigit :: "nat \<Rightarrow> char" where
  "hexDigit n = (if n < 10 then char_of (48 + n) else char_of (55 + n))"

definition unreserved :: "nat \<Rightarrow> bool" where
  "unreserved n =
     ((48 \<le> n \<and> n \<le> 57) \<or> (65 \<le> n \<and> n \<le> 90) \<or> (97 \<le> n \<and> n \<le> 122)
      \<or> n \<in> set [45, 95, 46, 33, 126, 42, 39, 40, 41])"

definition percentEncode :: "string \<Rightarrow> string" where
  "percentEncode t =
     concat (map (\<lambda>c. let n = (of_char c :: nat) in
                       if unreserved n then [c]
                       else [CHR ''%'', hexDigit (n div 16), hexDigit (n mod 16)]) t)"

definition quoted :: "string \<Rightarrow> string" where
  "quoted t = [CHR 0x22] @ t @ [CHR 0x22]"

text \<open>\<^verbatim>\<open>JSON.stringify\<close> for values whose strings need no escaping; a number that is
  not finite prints as null, and the examples use no other number. A property whose value
  is undefined or a function is left out of an object.\<close>

fun unwritten :: "jsval \<Rightarrow> bool" where
  "unwritten Undefined = True"
| "unwritten (Native (BuiltinFunction f)) = True"
| "unwritten v = False"

fun plainStringify :: "jsval \<Rightarrow> string" where
  "plainStringify Undefined = ''undefined''"
| "plainStringify Null = ''null''"
| "plainStringify (Bool b) = (if b then ''true'' else ''false'')"
| "plainStringify (Num n) = ''null''"
| "plainStringify (Str t) = quoted t"
| "plainStringify (Arr xs) =
     ''['' @ joinWith '','' (map (\<lambda>x. if unwritten x then ''null'' else plainStringify x) xs)
     @ '']''"
| "plainStringify (Obj kvs) =
     ''{'' @ joinWith '',''
              (map (\<lambda>(k, v). quoted k @ '':'' @ plainStringify v)
                   (filter (\<lambda>kv. \<not> unwritten (snd kv)) kvs)) @ ''}''"
| "plainStringify (Native ObjectPrototype) = ''{}''"
| "plainStringify (Native (BuiltinFunction f)) = ''undefined''"

definition body_two_contacts :: string where
  \<open>body_two_contacts =
     ''{"contacts":[{"id":"c2","email":"ab@x.com"},{"id":"c1","email":"A@X.com"}]}''\<close>

definition two_contacts :: "jsval list" where
  "two_contacts =
     [Obj [(''id'', Str ''c2''), (''email'', Str ''ab@x.com'')],
      Obj [(''id'', Str ''c1''), (''email'', Str ''A@X.com'')]]"

definition body_null_contact :: string where
  \<open>body_null_contact = ''{"contacts":[null]}''\<close>

definition body_numeric_email :: string where
  \<open>body_numeric_email = ''{"contacts":[{"email":5}]}''\<close>

definition body_empty_email :: string where
  \<open>body_empty_email = ''{"contacts":[{"id":"c0","email":""}]}''\<close>

definition body_unprintable_id :: string where
  \<open>body_unprintable_id = ''{"contacts":[{"id":{"toString":null},"email":"a@x.com"}]}''\<close>

definition body_object_tag :: string where
  \<open>body_object_tag = ''{"contact":{"id":"c1","tags":[{"k":"v"}]}}''\<close>

definition body_no_contacts :: string where
  \<open>body_no_contacts = ''{"contacts":[]}''\<close>

definition body_tagged_a :: string where
  \<open>body_tagged_a = ''{"contact":{"id":"c1","tags":["a"]}}''\<close>

definition body_one_field :: string where
  \<open>body_one_field = ''{"customFields":[{"id":"f1","fieldKey":"contact.tyg_message"}]}''\<close>

definition body_value_only :: string where
  \<open>body_value_only = ''{"customField":[{"value":"hello"}]}''\<close>

definition body_tag_twice :: string where
  \<open>body_tag_twice = ''{"tags":[{"k":"v"},{"k":"v"}]}''\<close>

definition body_message_id :: string where
  \<open>body_message_id = ''{"messageId":"m1"}''\<close>

text \<open>The values of \<^verbatim>\<open>JSON.parse\<close> on the bodies the examples use; any other text is
  taken as malformed.\<close>

definition sampleBodies :: "(string \<times> jsval) list" where
  "sampleBodies =
     [(''null'', Null),
      (body_null_contact, Obj [(''contacts'', Arr [Null])]),
      (body_numeric_email,
         Obj [(''contacts'', Arr [Obj [(''email'', Num (Finite 5))]])]),
      (body_empty_email,
         Obj [(''contacts'', Arr [Obj [(''id'', Str ''c0''), (''email'', Str [])]])]),
      (body_unprintable_id,
         Obj [(''contacts'',
               Arr [Obj [(''id'', Obj [(''toString'', Null)]), (''email'', Str ''a@x.com'')]])]),
      (body_object_tag,
         Obj [(''contact'',
               Obj [(''id'', Str ''c1''), (''tags'', Arr [Obj [(''k'', Str ''v'')]])])]),
      (body_no_contacts, Obj [(''contacts'', Arr [])]),
      (body_two_contacts, Obj [(''contacts'', Arr two_contacts)]),
      (body_tagged_a,
         Obj [(''contact'', Obj [(''id'', Str ''c1''), (''tags'', Arr [Str ''a''])])]),
      (body_one_field,
         Obj [(''customFields'',
               Arr [Obj [(''id'', Str ''f1''), (''fieldKey'', Str ''contact.tyg_message'')]])]),
      (body_message_id, Obj [(''messageId'', Str ''m1'')])]"

definition sampleParse :: "string \<Rightarrow> error + jsval" where
  "sampleParse t =
     (case map_of sampleBodies t of
        Some v \<Rightarrow> Inr v
      | None \<Rightarrow> Inl \<lparr>ename = ''SyntaxError'', message = ''Unexpected token'',
                     code = None, status = None\<rparr>)"

fun nullishText :: "jsval \<Rightarrow> string" where
  "nullishText Null = ''null''"
| "nullishText v = ''undefined''"

fun sampleTypeError :: "fault \<Rightarrow> error" where
  "sampleTypeError (ReadOfNullish v k) =
     \<lparr>ename = ''TypeError'',
      message = ''Cannot read properties of '' @ nullishText v @ '' (reading '' @ k @ '')'',
      code = None, status = None\<rparr>"
| "sampleTypeError (NotAFunction v k) =
     \<lparr>ename = ''TypeError'', message = k @ '' is not a function'', code = None, status = None\<rparr>"
| "sampleTypeError (NotIterable v) =
     \<lparr>ename = ''TypeError'', message = ''object is not iterable'', code = None, status = None\<rparr>"
| "sampleTypeError (NoObjectCoercion v) =
     \<lparr>ename = ''TypeError'', message = ''Cannot convert undefined or null to object'',
      code = None, status = None\<rparr>"
| "sampleTypeError (NoPrimitive v) =
     \<lparr>ename = ''TypeError'', message = ''Cannot convert object to primitive value'',
      code = None, status = None\<rparr>"

text \<open>The members of \<^verbatim>\<open>Object.prototype\<close> and of \<^verbatim>\<open>Array.prototype\<close>, each a built-in
  function; \<^verbatim>\<open>constructor\<close> is the function \<^verbatim>\<open>Object\<close> or \<^verbatim>\<open>Array\<close>.\<close>

definition objectPrototypeNames :: "string list" where
  "objectPrototypeNames =
     [''__defineGetter__'', ''__defineSetter__'', ''hasOwnProperty'',
      ''__lookupGetter__'', ''__lookupSetter__'', ''isPrototypeOf'', ''propertyIsEnumerable'',
      ''toString'', ''valueOf'', ''toLocaleString'']"

definition arrayPrototypeNames :: "string list" where
  "arrayPrototypeNames =
     [''at'', ''concat'', ''copyWithin'', ''fill'', ''find'', ''findIndex'',
      ''findLast'', ''findLastIndex'', ''lastIndexOf'', ''pop'', ''push'', ''reverse'',
      ''shift'', ''unshift'', ''slice'', ''sort'', ''splice'', ''includes'', ''indexOf'',
      ''join'', ''keys'', ''entries'', ''values'', ''forEach'', ''filter'', ''flat'',
      ''flatMap'', ''map'', ''every'', ''some'', ''reduce'', ''reduceRight'',
      ''toLocaleString'', ''toString'', ''toReversed'', ''toSorted'', ''toSpliced'', ''with'']"

definition memberOf :: "string \<Rightarrow> string list \<Rightarrow> string \<Rightarrow> jsval option" where
  "memberOf ctor names k =
     (if k = ''constructor'' then Some (Native (BuiltinFunction ctor))
      else if k \<in> set names then Some (Native (BuiltinFunction k))
      else None)"

definition host :: "(error + response) list runtime" where
  "host = \<lparr>fetch = scripted, JSON_parse = sampleParse, JSON_stringify = plainStringify,
           encodeURIComponent = percentEncode, toLowerCase = asciiLower, trim = asciiTrim,
           numberToString = (\<lambda>n. ''NaN''), typeError = sampleTypeError,
           objectPrototypeMember = memberOf ''Object'' objectPrototypeNames,
           arrayPrototypeMember = memberOf ''Array'' arrayPrototypeNames\<rparr>"

definition start :: "(error + response) list \<Rightarrow> (error + response) list net" where
  "start script = \<lparr>trace = [], world = script\<rparr>"

definition keyed :: config where
  "keyed = \<lparr>GHL_API_KEY = Some ''key-1'', GHL_LOCATION_ID = Some ''loc-1''\<rparr>"

definition unkeyed :: config where
  "unkeyed = \<lparr>GHL_API_KEY = None, GHL_LOCATION_ID = Some ''loc-1''\<rparr>"

definition answer :: "nat \<Rightarrow> string \<Rightarrow> string \<Rightarrow> string \<Rightarrow> error + response" where
  "answer st stText ct txt =
     Inr \<lparr>r_status = st, r_statusText = stText, r_contentType = Some ct, r_text = txt\<rparr>"

section \<open>Properties\<close>

subsection \<open>What a call hands to fetch\<close>

lemma doFetch_trace: "doFetch rt req s = (r, s') \<Longrightarrow> trace s' = trace s @ [req]"
  by (auto simp: doFetch_def split: prod.splits)

lemma ghlRequest_trace:
  "ghlRequest rt cfg endpoint opts s = (r, s') \<Longrightarrow>
     trace s' = trace s @ (if envSet (GHL_API_KEY cfg) then [restRequest cfg endpoint opts] else [])"
  by (auto simp: ghlRequest_def split: prod.splits sum.splits if_splits dest: doFetch_trace)


subsection \<open>The request executors\<close>

lemma ghlRequest_missing_key:
  "\<not> envSet (GHL_API_KEY cfg) \<Longrightarrow>
     ghlRequest rt cfg endpoint opts s =
       (Inl \<lparr>ename = ''Error'', message = missingKeyMessage,
             code = Some ''MISSING_API_KEY'', status = None\<rparr>, s)"
  by (simp add: ghlRequest_def)

lemma ghlServicesRequest_missing_key:
  "\<not> envSet (GHL_API_KEY cfg) \<Longrightarrow>
     ghlServicesRequest rt cfg endpoint opts s =
       (Inl \<lparr>ename = ''Error'', message = missingKeyMessage, code = None, status = None\<rparr>, s)"
  by (simp add: ghlServicesRequest_def Error_def)

text \<open>
  Claim C6. Without a credential both executors fail before any request is issued, and
  the state of the network is unchanged. The error of ghlRequest carries the code
  \<^verbatim>\<open>MISSING_API_KEY\<close>; the error of ghlServicesRequest carries no code at all, so the
  claim that the failure is identified by an error code fails on the services executor.
  The theorem runs both on a configuration without a key.
\<close>

theorem ghlServicesRequest_unkeyed_has_no_code:
  "ghlServicesRequest host unkeyed ''/conversations/messages''
       \<lparr>method = Some ''POST'', headers = [], body = Some ''{}''\<rparr> (start [])
     = (Inl \<lparr>ename = ''Error'', message = missingKeyMessage, code = None, status = None\<rparr>,
        start [])
   \<and> ghlRequest host unkeyed ''/contacts/'' noOptions (start [])
     = (Inl \<lparr>ename = ''Error'', message = missingKeyMessage,
             code = Some ''MISSING_API_KEY'', status = None\<rparr>, start [])"
  by (simp add: ghlServicesRequest_def ghlRequest_def unkeyed_def Error_def)

text \<open>
  Claim C7, as stated, fails: an ok response with a JSON content type whose body is not
  JSON yields no value; the executor throws. Here the CRM answers a DELETE with the plain
  text OK under a JSON content type.
\<close>

theorem ghlRequest_unparsable_json_counterexample:
  "ghlRequest host keyed ''/contacts/c1'' \<lparr>method = Some ''DELETE'', headers = [], body = None\<rparr>
       (start [answer 200 ''OK'' ''application/json'' ''OK''])
     = (Inl (Error ''Invalid JSON response: OK''),
        \<lparr>trace = [restRequest keyed ''/contacts/c1''
                     \<lparr>method = Some ''DELETE'', headers = [], body = None\<rparr>],
         world = []\<rparr>)"
  by code_simp

text \<open>
  Claim C7, amended. For every ok (2xx) response the outcome of ghlRequest is fixed by
  content negotiation: a body that is empty or blank yields \<^verbatim>\<open>{success:true}\<close>; any
  other body under a JSON content type yields the parsed value when it parses, and the
  error \<^verbatim>\<open>Invalid JSON response\<close> with the first 100 characters when it does not; any
  other body yields \<^verbatim>\<open>{success:true, message, raw}\<close> with the raw text twice.
\<close>

theorem ghlRequest_content_negotiation:
  assumes "envSet (GHL_API_KEY cfg)"
    and "fetch rt (restRequest cfg endpoint opts) (world s) = (Inr response, w')"
    and "response_ok response"
  shows "\<exists>result.
     ghlRequest rt cfg endpoint opts s =
       (result, \<lparr>trace = trace s @ [restRequest cfg endpoint opts], world = w'\<rparr>) \<and>
     (r_text response = [] \<or> trim rt (r_text response) = [] \<longrightarrow>
        result = Inr (Obj [(''success'', Bool True)])) \<and>
     (r_text response \<noteq> [] \<and> trim rt (r_text response) \<noteq> [] \<and>
      str_includes (case r_contentType response of Some c \<Rightarrow> c | None \<Rightarrow> [])
        ''application/json'' \<longrightarrow>
        (case JSON_parse rt (r_text response) of
           Inr v \<Rightarrow> result = Inr v
         | Inl e \<Rightarrow>
             result = Inl (Error (''Invalid JSON response: '' @ take 100 (r_text response))))) \<and>
     (r_text response \<noteq> [] \<and> trim rt (r_text response) \<noteq> [] \<and>
      \<not> str_includes (case r_contentType response of Some c \<Rightarrow> c | None \<Rightarrow> [])
          ''application/json'' \<longrightarrow>
        result = Inr (Obj [(''success'', Bool True), (''message'', Str (r_text response)),
                           (''raw'', Str (r_text response))]))"
  using assms
  by (auto simp: ghlRequest_def doFetch_def ghlRequest_success_def successOnly_def Let_def
           split: sum.splits)

theorem ghlRequest_content_negotiation_witness:
  "ghlRequest host keyed ''/contacts/c1'' \<lparr>method = Some ''DELETE'', headers = [], body = None\<rparr>
       (start [answer 200 ''OK'' ''text/plain'' ''OK''])
     = (Inr (Obj [(''success'', Bool True), (''message'', Str ''OK''), (''raw'', Str ''OK'')]),
        \<lparr>trace = [restRequest keyed ''/contacts/c1''
                     \<lparr>method = Some ''DELETE'', headers = [], body = None\<rparr>],
         world = []\<rparr>)"
proof -
  let ?opts = "\<lparr>method = Some ''DELETE'', headers = [], body = None\<rparr>"
  let ?resp = "\<lparr>r_status = 200, r_statusText = ''OK'', r_contentType = Some ''text/plain'',
                r_text = ''OK''\<rparr>"
  have h1: "envSet (GHL_API_KEY keyed)"
    by (simp add: keyed_def)
  have h2: "fetch host (restRequest keyed ''/contacts/c1'' ?opts)
              (world (start [answer 200 ''OK'' ''text/plain'' ''OK''])) = (Inr ?resp, [])"
    by (simp add: host_def scripted_def start_def answer_def)
  have h3: "response_ok ?resp"
    by (simp add: response_ok_def)
  have plain: "r_text ?resp \<noteq> [] \<and> trim host (r_text ?resp) \<noteq> [] \<and>
      \<not> str_includes (case r_contentType ?resp of Some c \<Rightarrow> c | None \<Rightarrow> []) ''application/json''"
    by code_simp
  from ghlRequest_content_negotiation[OF h1 h2 h3] plain
  show ?thesis
    by (auto simp: start_def)
qed

text \<open>The services executor negotiates the content of an ok response in the same way.\<close>

lemma ghlServicesRequest_ok:
  assumes "envSet (GHL_API_KEY cfg)"
    and "fetch rt (servicesRequest cfg endpoint opts) (world s) = (Inr response, w')"
    and "response_ok response"
  shows "ghlServicesRequest rt cfg endpoint opts s =
           (ghlRequest_success rt response,
            \<lparr>trace = trace s @ [servicesRequest cfg endpoint opts], world = w'\<rparr>)"
  using assms by (simp add: ghlServicesRequest_def doFetch_def)

subsection \<open>Searching\<close>



lemma emailMatches_True_Obj:
  "emailMatches rt email c = Inr True \<Longrightarrow> \<exists>kvs. c = Obj kvs"
  by (cases c) (auto simp: emailMatches_def split: if_splits jsval.splits)

lemma filterE_all_Obj:
  "filterE (emailMatches rt email) cs = Inr ys \<Longrightarrow> \<forall>y \<in> set ys. \<exists>kvs. y = Obj kvs"
proof (induction cs arbitrary: ys)
  case Nil
  then show ?case by simp
next
  case (Cons c cs)
  then show ?case
    by (auto split: sum.splits if_splits dest: emailMatches_True_Obj)
qed

lemma searchContactByEmail_result:
  assumes "searchContactByEmail rt cfg email s = (Inr c, s')"
  shows "c = Null \<or> (\<exists>kvs. c = Obj kvs)"
  using assms
  by (auto simp: searchContactByEmail_def Let_def
           split: prod.splits sum.splits list.splits if_splits
           dest!: filterE_all_Obj)

lemma searchContactByEmail_state:
  "snd (searchContactByEmail rt cfg email s)
     = snd (ghlRequest rt cfg (''/contacts/?query='' @ encodeURIComponent rt email) noOptions s)"
  by (simp add: searchContactByEmail_def Let_def split: prod.split sum.split)

lemma searchContactByEmail_trace:
  assumes "searchContactByEmail rt cfg email s = (r, s')"
  shows "trace s' = trace s @
           (if envSet (GHL_API_KEY cfg)
            then [restRequest cfg (''/contacts/?query='' @ encodeURIComponent rt email) noOptions]
            else [])"
proof -
  obtain r0 s0 where run:
    "ghlRequest rt cfg (''/contacts/?query='' @ encodeURIComponent rt email) noOptions s
       = (r0, s0)"
    by (cases "ghlRequest rt cfg (''/contacts/?query='' @ encodeURIComponent rt email)
                 noOptions s") auto
  have "s' = s0"
    using searchContactByEmail_state[of rt cfg email s] assms run by simp
  with ghlRequest_trace[OF run] show ?thesis by simp
qed

lemma searchContactByEmail_issued:
  assumes "searchContactByEmail rt cfg email s = (r, s')"
  shows "\<forall>q \<in> set (issued s s'). method q = None"
  using searchContactByEmail_trace[OF assms]
  by (auto simp: issued_def restRequest_def noOptions_def)

lemma searchContactByEmail_propagates:
  "ghlRequest rt cfg (''/contacts/?query='' @ encodeURIComponent rt email) noOptions s
     = (Inl e, s') \<Longrightarrow>
   searchContactByEmail rt cfg email s = (Inl e, s')"
  by (simp add: searchContactByEmail_def)

text \<open>The contacts of a response, by its shape (lines 95-103).\<close>

lemma contactsOf_shapes:
  "contactsOf rt (Obj kvs) =
     Inr (case ownProp kvs ''contacts'' of
            Arr xs \<Rightarrow> xs
          | _ \<Rightarrow> if truthy (ownProp kvs ''contact'') then [ownProp kvs ''contact''] else [])"
  "contactsOf rt (Arr xs) = Inr xs"
  "contactsOf rt (Str t) = Inr []"
  "contactsOf rt (Num n) = Inr []"
  "contactsOf rt (Bool b) = Inr []"
  by (auto simp: contactsOf_def split: jsval.splits)






text \<open>
  Claim C10. A response that is ok, has a JSON content type and the body \<^verbatim>\<open>null\<close> is in
  none of the three recognised shapes, and the search throws on it: reading
  \<^verbatim>\<open>data.contacts\<close> of null is a TypeError.
\<close>

theorem searchContactByEmail_null_body:
  "searchContactByEmail host keyed ''a@x.com''
       (start [answer 200 ''OK'' ''application/json'' ''null''])
     = (Inl (sampleTypeError (ReadOfNullish Null ''contacts'')),
        \<lparr>trace = [restRequest keyed ''/contacts/?query=a%40x.com'' noOptions], world = []\<rparr>)"
  by code_simp

text \<open>Every other value in none of the three shapes is an empty list of contacts.\<close>

lemma searchContactByEmail_unrecognised:
  assumes "ghlRequest rt cfg (''/contacts/?query='' @ encodeURIComponent rt email) noOptions s
             = (Inr data, s')"
    and "data \<noteq> Null" and "data \<noteq> Undefined" and "\<not> isArray data"
    and "\<forall>kvs. data = Obj kvs \<longrightarrow>
           \<not> isArray (ownProp kvs ''contacts'') \<and> \<not> truthy (ownProp kvs ''contact'')"
  shows "searchContactByEmail rt cfg email s = (Inr Null, s')"
  using assms
  by (cases data) (auto simp: searchContactByEmail_def contactsOf_def split: jsval.splits)

subsection \<open>Find or create\<close>

text \<open>
  Claim C3. Whenever the search returns a contact that is not null, findOrCreateContact
  returns that contact in the state the search left, and no request issued by the call is
  a POST; and whenever a call of findOrCreateContact issues a POST, the search had
  returned null.
\<close>

theorem findOrCreateContact_existing:
  "(\<forall>contact s'.
      searchContactByEmail rt cfg email s = (Inr contact, s') \<and> contact \<noteq> Null \<longrightarrow>
        findOrCreateContact rt cfg email contactData s = (Inr contact, s') \<and>
        (\<forall>q \<in> set (issued s s'). method q \<noteq> Some ''POST''))
   \<and> (\<forall>r s2.
        findOrCreateContact rt cfg email contactData s = (r, s2) \<and>
        (\<exists>q \<in> set (issued s s2). method q = Some ''POST'') \<longrightarrow>
          (\<exists>s'. searchContactByEmail rt cfg email s = (Inr Null, s')))"
proof -
  obtain r0 s0 where run: "searchContactByEmail rt cfg email s = (r0, s0)"
    by (cases "searchContactByEmail rt cfg email s") auto
  have quiet: "\<forall>q \<in> set (issued s s0). method q = None"
    using searchContactByEmail_issued[OF run] .
  show ?thesis
  proof (cases r0)
    case (Inl e)
    with run have "findOrCreateContact rt cfg email contactData s = (Inl e, s0)"
      by (simp add: findOrCreateContact_def)
    with run Inl quiet show ?thesis by auto
  next
    case (Inr c)
    with run have shape: "c = Null \<or> (\<exists>kvs. c = Obj kvs)"
      using searchContactByEmail_result by blast
    show ?thesis
    proof (cases "c = Null")
      case True
      with run Inr show ?thesis by auto
    next
      case False
      with shape have "truthy c" by auto
      with run Inr have "findOrCreateContact rt cfg email contactData s = (Inr c, s0)"
        by (simp add: findOrCreateContact_def)
      with run Inr quiet False show ?thesis by auto
    qed
  qed
qed

theorem findOrCreateContact_existing_witness:
  "findOrCreateContact host keyed ''a@x.com'' (Obj [(''firstName'', Str ''Ann'')])
       (start [answer 200 ''OK'' ''application/json'' body_two_contacts])
     = (Inr (Obj [(''id'', Str ''c1''), (''email'', Str ''A@X.com'')]),
        \<lparr>trace = [restRequest keyed ''/contacts/?query=a%40x.com'' noOptions], world = []\<rparr>)"
proof -
  have found: "searchContactByEmail host keyed ''a@x.com''
                 (start [answer 200 ''OK'' ''application/json'' body_two_contacts])
               = (Inr (Obj [(''id'', Str ''c1''), (''email'', Str ''A@X.com'')]),
                  \<lparr>trace = [restRequest keyed ''/contacts/?query=a%40x.com'' noOptions],
                   world = []\<rparr>)"
    by code_simp
  from findOrCreateContact_existing[of host keyed "''a@x.com''"
         "start [answer 200 ''OK'' ''application/json'' body_two_contacts]"
         "Obj [(''firstName'', Str ''Ann'')]"] found
  show ?thesis by auto
qed

subsection \<open>Deleting by email\<close>

text \<open>
  Claim C8. deleteContactByEmail searches first. When the search returns null it returns
  false in the state the search left, and no request issued is a DELETE. When the search
  returns a contact it sends a DELETE for the id of that contact: if that request fails
  the error is the outcome of the call, and if it succeeds the call returns true.
\<close>

theorem deleteContactByEmail_outcomes:
  assumes "searchContactByEmail rt cfg email s = (Inr contact, s')"
  shows "(contact = Null \<longrightarrow>
            deleteContactByEmail rt cfg email s = (Inr (Bool False), s') \<and>
            (\<forall>q \<in> set (issued s s'). method q \<noteq> Some ''DELETE''))
       \<and> (contact \<noteq> Null \<longrightarrow>
            (\<exists>contactId. getProp rt contact ''id'' = Inr contactId \<and>
               (case ghlRequest rt cfg (''/contacts/'' @ ToString rt contactId)
                       \<lparr>method = Some ''DELETE'', headers = [], body = None\<rparr> s' of
                  (Inl e, s2) \<Rightarrow> deleteContactByEmail rt cfg email s = (Inl e, s2)
                | (Inr ok, s2) \<Rightarrow> deleteContactByEmail rt cfg email s = (Inr (Bool True), s2))))"
proof -
  have quiet: "\<forall>q \<in> set (issued s s'). method q = None"
    using searchContactByEmail_issued[OF assms] .
  have shape: "contact = Null \<or> (\<exists>kvs. contact = Obj kvs)"
    using searchContactByEmail_result[OF assms] .
  show ?thesis
  proof (cases "contact = Null")
    case True
    with assms quiet show ?thesis by (auto simp: deleteContactByEmail_def)
  next
    case False
    with shape obtain kvs where c: "contact = Obj kvs" by auto
    show ?thesis
      using assms c
      by (auto simp: deleteContactByEmail_def deleteContact_def split: prod.splits sum.splits)
  qed
qed

theorem deleteContactByEmail_outcomes_witness:
  "deleteContactByEmail host keyed ''a@x.com''
       (start [answer 200 ''OK'' ''application/json'' body_no_contacts])
     = (Inr (Bool False),
        \<lparr>trace = [restRequest keyed ''/contacts/?query=a%40x.com'' noOptions], world = []\<rparr>)
   \<and> deleteContactByEmail host keyed ''a@x.com''
       (start [answer 200 ''OK'' ''application/json'' body_two_contacts,
               answer 200 ''OK'' ''text/plain'' ''OK''])
     = (Inr (Bool True),
        \<lparr>trace = [restRequest keyed ''/contacts/?query=a%40x.com'' noOptions,
                  restRequest keyed ''/contacts/c1''
                    \<lparr>method = Some ''DELETE'', headers = [], body = None\<rparr>],
         world = []\<rparr>)"
proof -
  let ?found = "Obj [(''id'', Str ''c1''), (''email'', Str ''A@X.com'')]"
  let ?s1 = "\<lparr>trace = [restRequest keyed ''/contacts/?query=a%40x.com'' noOptions],
              world = [answer 200 ''OK'' ''text/plain'' ''OK'']\<rparr>"
  have absent: "searchContactByEmail host keyed ''a@x.com''
                  (start [answer 200 ''OK'' ''application/json'' body_no_contacts])
                = (Inr Null,
                   \<lparr>trace = [restRequest keyed ''/contacts/?query=a%40x.com'' noOptions],
                    world = []\<rparr>)"
    by code_simp
  have present: "searchContactByEmail host keyed ''a@x.com''
                   (start [answer 200 ''OK'' ''application/json'' body_two_contacts,
                           answer 200 ''OK'' ''text/plain'' ''OK''])
                 = (Inr ?found, ?s1)"
    by code_simp
  have del: "ghlRequest host keyed (''/contacts/'' @ ToString host (Str ''c1''))
               \<lparr>method = Some ''DELETE'', headers = [], body = None\<rparr> ?s1
             = (Inr (Obj [(''success'', Bool True), (''message'', Str ''OK''),
                          (''raw'', Str ''OK'')]),
                \<lparr>trace = [restRequest keyed ''/contacts/?query=a%40x.com'' noOptions,
                          restRequest keyed ''/contacts/c1''
                            \<lparr>method = Some ''DELETE'', headers = [], body = None\<rparr>],
                 world = []\<rparr>)"
    by code_simp
  have a: "deleteContactByEmail host keyed ''a@x.com''
             (start [answer 200 ''OK'' ''application/json'' body_no_contacts])
           = (Inr (Bool False),
              \<lparr>trace = [restRequest keyed ''/contacts/?query=a%40x.com'' noOptions],
               world = []\<rparr>)"
    using deleteContactByEmail_outcomes[OF absent] by simp
  have b: "deleteContactByEmail host keyed ''a@x.com''
             (start [answer 200 ''OK'' ''application/json'' body_two_contacts,
                     answer 200 ''OK'' ''text/plain'' ''OK''])
           = (Inr (Bool True),
              \<lparr>trace = [restRequest keyed ''/contacts/?query=a%40x.com'' noOptions,
                        restRequest keyed ''/contacts/c1''
                          \<lparr>method = Some ''DELETE'', headers = [], body = None\<rparr>],
               world = []\<rparr>)"
    using deleteContactByEmail_outcomes[OF present] del by (auto simp: ownProp_def)
  from a b show ?thesis by simp
qed

subsection \<open>Custom fields\<close>

lemma pushResolved_unresolved:
  "\<forall>(k, v) \<in> set entries. \<not> truthy (lookupField rt fieldDefinitions k) \<Longrightarrow>
     pushResolved rt fieldDefinitions entries acc = Inr acc"
  by (induction entries arbitrary: acc) (auto simp: Let_def)

lemma getCustomFieldDefinitions_state:
  "snd (getCustomFieldDefinitions rt cfg s)
     = snd (ghlRequest rt cfg
              (if envSet (GHL_LOCATION_ID cfg)
               then ''/custom-fields/?locationId='' @ envText (GHL_LOCATION_ID cfg)
               else ''/custom-fields/'') noOptions s)"
  by (simp add: getCustomFieldDefinitions_def Let_def split: prod.split sum.split jsval.split)

lemma getCustomFieldDefinitions_trace:
  assumes "getCustomFieldDefinitions rt cfg s = (r, s')"
  shows "trace s' = trace s @
       (if envSet (GHL_API_KEY cfg)
        then [restRequest cfg
                (if envSet (GHL_LOCATION_ID cfg)
                 then ''/custom-fields/?locationId='' @ envText (GHL_LOCATION_ID cfg)
                 else ''/custom-fields/'') noOptions]
        else [])"
proof -
  let ?endpoint = "if envSet (GHL_LOCATION_ID cfg)
                   then ''/custom-fields/?locationId='' @ envText (GHL_LOCATION_ID cfg)
                   else ''/custom-fields/''"
  obtain r0 s0 where run: "ghlRequest rt cfg ?endpoint noOptions s = (r0, s0)"
    by (cases "ghlRequest rt cfg ?endpoint noOptions s") auto
  have "s' = s0"
    using getCustomFieldDefinitions_state[of rt cfg s] assms run by simp
  with ghlRequest_trace[OF run] show ?thesis by simp
qed

text \<open>
  When the contact id converts to text, the definitions are fetched, and no key of the
  updates reads as a truthy value from the fetched map, own or inherited, the call returns
  null in the state the fetch of the definitions left, with at most that one request
  issued and no PUT.
\<close>

lemma updateContactCustomFields_unresolved:
  assumes "convertible contactId"
    and "getCustomFieldDefinitions rt cfg s = (Inr fieldDefinitions, s1)"
    and "\<forall>(fieldKey, fieldValue) \<in> set updates.
           \<not> truthy (lookupField rt fieldDefinitions fieldKey)"
  shows "updateContactCustomFields rt cfg contactId (Obj updates) s = (Inr Null, s1)
       \<and> length (issued s s1) \<le> 1
       \<and> (\<forall>q \<in> set (issued s s1). method q \<noteq> Some ''PUT'')"
proof -
  have "pushResolved rt fieldDefinitions updates [] = Inr []"
    using assms(3) by (rule pushResolved_unresolved)
  then have "updateContactCustomFields rt cfg contactId (Obj updates) s = (Inr Null, s1)"
    using assms(1,2)
    by (simp add: updateContactCustomFields_def Object_entries_def stringOf_def)
  moreover have "length (issued s s1) \<le> 1
                 \<and> (\<forall>q \<in> set (issued s s1). method q \<noteq> Some ''PUT'')"
    using getCustomFieldDefinitions_trace[OF assms(2)]
    by (auto simp: issued_def restRequest_def noOptions_def)
  ultimately show ?thesis by simp
qed

text \<open>A key under which the fetched map has no own property and the prototype nothing is
  not resolved.\<close>

lemma lookupField_plain:
  assumes "fm_proto fieldDefinitions = Native ObjectPrototype"
    and "map_of (fm_own fieldDefinitions) k = None"
    and "k \<noteq> ''__proto__''" and "objectPrototypeMember rt k = None"
  shows "lookupField rt fieldDefinitions k = Undefined"
  using assms by (simp add: lookupField_def inheritedProp_def fromObjectPrototype_def)

text \<open>
  Claim C4. The freshly fetched map holds one definition, \<^verbatim>\<open>tyg_message\<close>, and the
  updates hold the one key \<^verbatim>\<open>toString\<close>, which matches no definition. Line 183 reads the
  key from the plain object that holds the map and finds the function that every object
  inherits; the value is truthy, so the key counts as resolved, and the call issues a PUT
  to the contact instead of returning null. The body of the PUT holds the value without
  an id, since a function is left out of JSON.
\<close>

theorem updateContactCustomFields_inherited_key:
  "getCustomFieldDefinitions host keyed
       (start [answer 200 ''OK'' ''application/json'' body_one_field,
               answer 200 ''OK'' ''text/plain'' ''OK''])
     = (Inr \<lparr>fm_own = [(''tyg_message'', Str ''f1'')], fm_proto = Native ObjectPrototype\<rparr>,
        \<lparr>trace = [restRequest keyed ''/custom-fields/?locationId=loc-1'' noOptions],
         world = [answer 200 ''OK'' ''text/plain'' ''OK'']\<rparr>)
   \<and> lookupField host
         \<lparr>fm_own = [(''tyg_message'', Str ''f1'')], fm_proto = Native ObjectPrototype\<rparr>
         ''toString''
     = Native (BuiltinFunction ''toString'')
   \<and> updateContactCustomFields host keyed (Str ''c1'') (Obj [(''toString'', Str ''hello'')])
       (start [answer 200 ''OK'' ''application/json'' body_one_field,
               answer 200 ''OK'' ''text/plain'' ''OK''])
     = (Inr (Obj [(''success'', Bool True), (''message'', Str ''OK''), (''raw'', Str ''OK'')]),
        \<lparr>trace = [restRequest keyed ''/custom-fields/?locationId=loc-1'' noOptions,
                  restRequest keyed ''/contacts/c1''
                    \<lparr>method = Some ''PUT'', headers = [], body = Some body_value_only\<rparr>],
         world = []\<rparr>)"
  by code_simp

subsection \<open>Tagging\<close>

lemma isPrimitive_comparedByValue: "isPrimitive v \<Longrightarrow> comparedByValue v"
  by (cases v) auto

lemma foldl_setAdd_primitive:
  assumes "\<forall>x \<in> set xs. isPrimitive x" "distinct acc" "\<forall>x \<in> set acc. isPrimitive x"
  shows "distinct (foldl setAdd acc xs) \<and> set (foldl setAdd acc xs) = set acc \<union> set xs"
  using assms
proof (induction xs arbitrary: acc)
  case Nil
  then show ?case by simp
next
  case (Cons x xs)
  have px: "isPrimitive x" using Cons.prems(1) by simp
  have mem: "list_ex (\<lambda>u. sameValueZero u x) acc \<longleftrightarrow> x \<in> set acc"
    using Cons.prems(3) px
    by (auto simp: list_ex_iff sameValueZero_def dest: isPrimitive_comparedByValue)
  have d: "distinct (setAdd acc x)" and s: "set (setAdd acc x) = insert x (set acc)"
    using Cons.prems(2) mem by (auto simp: setAdd_def)
  have p: "\<forall>y \<in> set (setAdd acc x). isPrimitive y"
    using s px Cons.prems(3) by auto
  have "distinct (foldl setAdd (setAdd acc x) xs) \<and>
        set (foldl setAdd (setAdd acc x) xs) = set (setAdd acc x) \<union> set xs"
    using Cons.IH[OF _ d p] Cons.prems(1) by simp
  with s show ?case by auto
qed

lemma newSet_primitive:
  "\<forall>x \<in> set xs. isPrimitive x \<Longrightarrow> distinct (newSet xs) \<and> set (newSet xs) = set xs"
  using foldl_setAdd_primitive[of xs "[]"] by (simp add: newSet_def)

text \<open>
  Claim C5, as stated, fails for a tag that is an object: a \<^verbatim>\<open>Set\<close> compares objects by
  reference, and the tag parsed from the response and the tag passed by the caller are two
  objects. Here the contact has the tag \<^verbatim>\<open>{"k":"v"}\<close> and the same tag is added: the list
  written holds it twice. And a contact id that does not convert to text makes the log
  line 262 throw before any request.
\<close>

theorem addTagsToContact_object_tag_counterexample:
  "addTagsToContact host keyed (Str ''c1'') (Obj [(''k'', Str ''v'')])
       (start [answer 200 ''OK'' ''application/json'' body_object_tag,
               answer 200 ''OK'' ''text/plain'' ''OK''])
     = (Inr (Obj [(''success'', Bool True), (''message'', Str ''OK''), (''raw'', Str ''OK'')]),
        \<lparr>trace = [restRequest keyed ''/contacts/c1'' noOptions,
                  restRequest keyed ''/contacts/c1''
                    \<lparr>method = Some ''PUT'', headers = [], body = Some body_tag_twice\<rparr>],
         world = []\<rparr>)
   \<and> addTagsToContact host keyed (Obj [(''toString'', Null)]) (Str ''b'')
       (start [answer 200 ''OK'' ''application/json'' body_tagged_a,
               answer 200 ''OK'' ''text/plain'' ''OK''])
     = (Inl (sampleTypeError (NoPrimitive (Obj [(''toString'', Null)]))),
        start [answer 200 ''OK'' ''application/json'' body_tagged_a,
               answer 200 ''OK'' ''text/plain'' ''OK''])"
  by code_simp

text \<open>
  Claim C5, amended. Let the contact id convert to text, and let the read of the contact
  succeed with an object, the contact being its \<^verbatim>\<open>contact\<close> field when that is truthy
  and the object itself otherwise; let the
  contact be an object whose tags are a list, or falsy and then counted as no tags; let
  the given tags be the elements of the tag argument when it is a list and the argument
  alone otherwise; and let all these tags be primitive values, as strings are. Then
  addTagsToContact hands to fetch, after the read, exactly one request: a PUT to the
  contact whose tag list has no duplicate and has as elements exactly the existing tags
  and the given ones.
\<close>

theorem addTagsToContact_union:
  assumes "convertible contactId"
    and "ghlRequest rt cfg (''/contacts/'' @ ToString rt contactId) noOptions s
             = (Inr (Obj response), s1)"
    and "contact = (if truthy (ownProp response ''contact'')
                    then ownProp response ''contact'' else Obj response)"
    and "contact = Obj props"
    and "ownProp props ''tags'' = Arr existing
         \<or> (\<not> truthy (ownProp props ''tags'') \<and> existing = [])"
    and "tags = Arr given \<or> (\<not> isArray tags \<and> given = [tags])"
    and "\<forall>x \<in> set (existing @ given). isPrimitive x"
  shows "\<exists>newTags.
           (\<exists>r s2. addTagsToContact rt cfg contactId tags s = (r, s2) \<and>
                    trace s2 = trace s1 @ [tagsPut rt cfg contactId newTags])
           \<and> distinct newTags
           \<and> set newTags = set existing \<union> set given"
proof -
  let ?new = "newSet (existing @ given)"
  let ?put = "ghlRequest rt cfg (''/contacts/'' @ ToString rt contactId)
       \<lparr>method = Some ''PUT'', headers = [],
        body = Some (JSON_stringify rt (Obj [(''tags'', Arr ?new)]))\<rparr> s1"
  have idText: "stringOf rt contactId = Inr (ToString rt contactId)"
    using assms(1) by (simp add: stringOf_def)
  have arg: "tagsArrayOf tags = given"
    using assms(6) by (cases tags) (auto simp: tagsArrayOf_def)
  have key: "envSet (GHL_API_KEY cfg)"
    using assms(2) by (auto simp: ghlRequest_def split: if_splits)
  have read: "contactOrSelf rt (Obj response) = Inr contact"
    using assms(3) by (simp add: contactOrSelf_def)
  have old: "getProp rt contact ''tags'' = Inr (ownProp props ''tags'')"
    "spreadIterable rt (if truthy (ownProp props ''tags'') then ownProp props ''tags''
                        else Arr []) = Inr existing"
    using assms(4,5) by auto
  obtain r s2 where put: "?put = (r, s2)"
    by (cases ?put) auto
  have written: "trace s2 = trace s1 @ [tagsPut rt cfg contactId ?new]"
    using ghlRequest_trace[OF put] key by (simp add: tagsPut_def)
  have "snd (addTagsToContact rt cfg contactId tags s) = s2"
    using assms(2) idText read old put arg
    by (simp add: addTagsToContact_def Let_def split: sum.split)
  then have "\<exists>r'. addTagsToContact rt cfg contactId tags s = (r', s2)"
    by (cases "addTagsToContact rt cfg contactId tags s") auto
  moreover have "distinct ?new \<and> set ?new = set existing \<union> set given"
    using newSet_primitive[OF assms(7)] by simp
  ultimately show ?thesis using written by blast
qed

theorem addTagsToContact_union_witness:
  "(\<exists>newTags.
      (\<exists>r s2. addTagsToContact host keyed (Str ''c1'') (Arr [Str ''b'', Str ''a''])
                 (start [answer 200 ''OK'' ''application/json'' body_tagged_a,
                         answer 200 ''OK'' ''text/plain'' ''OK'']) = (r, s2) \<and>
               trace s2 = [restRequest keyed ''/contacts/c1'' noOptions,
                           tagsPut host keyed (Str ''c1'') newTags])
      \<and> distinct newTags \<and> set newTags = {Str ''a'', Str ''b''})
   \<and> snd (addTagsToContact host keyed (Str ''c1'') (Arr [Str ''b'', Str ''a''])
          (start [answer 200 ''OK'' ''application/json'' body_tagged_a,
                  answer 200 ''OK'' ''text/plain'' ''OK'']))
     = \<lparr>trace = [restRequest keyed ''/contacts/c1'' noOptions,
                 tagsPut host keyed (Str ''c1'') [Str ''a'', Str ''b'']],
        world = []\<rparr>
   \<and> snd (addTagsToContact host keyed (Str ''c1'') (Str ''b'')
          (start [answer 200 ''OK'' ''application/json'' body_tagged_a,
                  answer 200 ''OK'' ''text/plain'' ''OK'']))
     = \<lparr>trace = [restRequest keyed ''/contacts/c1'' noOptions,
                 tagsPut host keyed (Str ''c1'') [Str ''a'', Str ''b'']],
        world = []\<rparr>
   \<and> snd (addTagsToContact host keyed (Str ''c1'') (Str ''a'')
          (start [answer 200 ''OK'' ''application/json'' body_tagged_a,
                  answer 200 ''OK'' ''text/plain'' ''OK'']))
     = \<lparr>trace = [restRequest keyed ''/contacts/c1'' noOptions,
                 tagsPut host keyed (Str ''c1'') [Str ''a'']],
        world = []\<rparr>"
proof -
  let ?s0 = "start [answer 200 ''OK'' ''application/json'' body_tagged_a,
                    answer 200 ''OK'' ''text/plain'' ''OK'']"
  let ?s1 = "\<lparr>trace = [restRequest keyed ''/contacts/c1'' noOptions],
              world = [answer 200 ''OK'' ''text/plain'' ''OK'']\<rparr>"
  let ?response = "[(''contact'', Obj [(''id'', Str ''c1''), (''tags'', Arr [Str ''a''])])]"
  let ?props = "[(''id'', Str ''c1''), (''tags'', Arr [Str ''a''])]"
  have h0: "convertible (Str ''c1'')"
    by simp
  have h1: "ghlRequest host keyed (''/contacts/'' @ ToString host (Str ''c1'')) noOptions ?s0
            = (Inr (Obj ?response), ?s1)"
    by code_simp
  have h2: "Obj ?props = (if truthy (ownProp ?response ''contact'')
                          then ownProp ?response ''contact'' else Obj ?response)"
    by (simp add: ownProp_def)
  have h3: "Obj ?props = Obj ?props"
    by simp
  have h4: "ownProp ?props ''tags'' = Arr [Str ''a'']
            \<or> (\<not> truthy (ownProp ?props ''tags'') \<and> [Str ''a''] = [])"
    by (simp add: ownProp_def)
  have h5: "Arr [Str ''b'', Str ''a''] = Arr [Str ''b'', Str ''a'']
            \<or> (\<not> isArray (Arr [Str ''b'', Str ''a'']) \<and> [Str ''b'', Str ''a''] = [Arr [Str ''b'', Str ''a'']])"
    by simp
  have h6: "\<forall>x \<in> set ([Str ''a''] @ [Str ''b'', Str ''a'']). isPrimitive x"
    by simp
  have general: "\<exists>newTags.
      (\<exists>r s2. addTagsToContact host keyed (Str ''c1'') (Arr [Str ''b'', Str ''a'']) ?s0 = (r, s2) \<and>
               trace s2 = [restRequest keyed ''/contacts/c1'' noOptions,
                           tagsPut host keyed (Str ''c1'') newTags])
      \<and> distinct newTags \<and> set newTags = {Str ''a'', Str ''b''}"
    using addTagsToContact_union[OF h0 h1 h2 h3 h4 h5 h6] by auto
  have runs:
    "snd (addTagsToContact host keyed (Str ''c1'') (Arr [Str ''b'', Str ''a'']) ?s0)
       = \<lparr>trace = [restRequest keyed ''/contacts/c1'' noOptions,
                   tagsPut host keyed (Str ''c1'') [Str ''a'', Str ''b'']],
          world = []\<rparr>
     \<and> snd (addTagsToContact host keyed (Str ''c1'') (Str ''b'') ?s0)
       = \<lparr>trace = [restRequest keyed ''/contacts/c1'' noOptions,
                   tagsPut host keyed (Str ''c1'') [Str ''a'', Str ''b'']],
          world = []\<rparr>
     \<and> snd (addTagsToContact host keyed (Str ''c1'') (Str ''a'') ?s0)
       = \<lparr>trace = [restRequest keyed ''/contacts/c1'' noOptions,
                   tagsPut host keyed (Str ''c1'') [Str ''a'']],
          world = []\<rparr>"
    by code_simp
  from general runs show ?thesis by blast
qed

subsection \<open>Creating a contact\<close>





subsection \<open>The fallback over the candidate endpoints\<close>

lemma str_includes_prefix: "prefix sub t \<Longrightarrow> str_includes t sub"
  by (cases t) auto

lemma str_includes_append: "str_includes (xs @ ys @ zs) ys"
proof (induction xs)
  case Nil
  show ?case by (simp add: str_includes_prefix)
next
  case (Cons x xs)
  then show ?case by simp
qed







text \<open>A response with status 404 or 401 gives, in each executor, an error that sends the
  loop on whenever the error body can be read.\<close>

lemma decimal_404: "decimal 404 = ''404''"
  by code_simp

lemma status_404_continues:
  "continueShaped (Error (''GHL Services API Error: '' @ decimal 404 @ '' - '' @ m))"
  "continueShaped (Error (''GHL API Error: '' @ decimal 404 @ '' - '' @ m))"
  unfolding continueShaped_def Error_def decimal_404
  using str_includes_append[of "''GHL Services API Error: ''" "''404''" "'' - '' @ m"]
        str_includes_append[of "''GHL API Error: ''" "''404''" "'' - '' @ m"]
  by simp_all

lemma status_401_continues:
  "continueShaped (authError (''GHL API Authentication Failed (401): '' @ m))"
  unfolding continueShaped_def authError_def
  using str_includes_append[of "''GHL API Authentication Failed (''" "''401''" "''): '' @ m"]
  by simp



end
